theory Spec2Isabelle
  imports Complex_Main "HOL-Library.Word"
begin

section \<open>The TIFF metadata tool (tools.js)\<close>

text \<open>
  The tool reads a file into an \<open>ArrayBuffer\<close>, walks the first image file directory of
  a TIFF header (\<open>parseTiffMetadata\<close>), interprets the ImageDescription text, and
  prints a report (\<open>handleFile\<close>).

  JavaScript values are embedded as follows.
  \<^item> The buffer is a list of bytes; offsets and the integers read from it are JavaScript
    numbers that hold non-negative integers, modelled as \<open>nat\<close>. They stay below
    \<open>2 ^ 53\<close> everywhere but in \<open>getUint64\<close>, whose result is only compared with
    the buffer length (a rounded value beyond \<open>2 ^ 53\<close> exceeds every buffer length
    just as the exact one does).
  \<^item> A string is the list of its 16-bit code units.
  \<^item> A \<open>RangeError\<close> thrown by a \<open>DataView\<close> read is the left summand of a
    result.
  \<^item> A property that is missing from an object and a property that holds
    \<open>undefined\<close> read the same way everywhere in this program; both are \<open>None\<close>.
\<close>

subsection \<open>Values\<close>

type_synonym byte = "8 word"
type_synonym jschar = "16 word"
type_synonym jsstring = "jschar list"

datatype error = RangeError

text \<open>
  A JavaScript number that is not known to be an unsigned integer. \<open>Fin q\<close> stands for
  the binary64 value nearest to the rational \<open>q\<close>; the rounding of the mantissa is not
  modelled, zero, the infinities and NaN are.
\<close>

datatype jsnum = NaN | PosInfinity | NegInfinity | Fin rat

definition str :: "string \<Rightarrow> jsstring" where
  "str s = map (\<lambda>c. of_nat (of_char c)) s"

definition bindE :: "error + 'a \<Rightarrow> ('a \<Rightarrow> error + 'b) \<Rightarrow> error + 'b" where
  "bindE r f = (case r of Inl e \<Rightarrow> Inl e | Inr v \<Rightarrow> f v)"

subsection \<open>DataView reads\<close>

text \<open>
  \<open>view.getUint8(offset)\<close>, \<open>view.getUint16(offset, littleEndian)\<close> and
  \<open>view.getUint32(offset, littleEndian)\<close>: a read that does not lie inside the buffer
  throws a RangeError.
\<close>

definition getUint8 :: "byte list \<Rightarrow> nat \<Rightarrow> error + nat" where
  "getUint8 view offset =
     (if offset + 1 > length view then Inl RangeError
      else Inr (unat (view ! offset)))"

text \<open>The unsigned integer that two or four bytes hold in a byte order.\<close>

definition uint16 :: "bool \<Rightarrow> byte \<Rightarrow> byte \<Rightarrow> nat" where
  "uint16 littleEndian b0 b1 =
     (if littleEndian then unat b0 + 256 * unat b1 else 256 * unat b0 + unat b1)"

definition uint32 :: "bool \<Rightarrow> byte \<Rightarrow> byte \<Rightarrow> byte \<Rightarrow> byte \<Rightarrow> nat" where
  "uint32 littleEndian b0 b1 b2 b3 =
     (if littleEndian
      then unat b0 + 256 * unat b1 + 65536 * unat b2 + 16777216 * unat b3
      else 16777216 * unat b0 + 65536 * unat b1 + 256 * unat b2 + unat b3)"

definition getUint16 :: "byte list \<Rightarrow> nat \<Rightarrow> bool \<Rightarrow> error + nat" where
  "getUint16 view offset littleEndian =
     (if offset + 2 > length view then Inl RangeError
      else Inr (uint16 littleEndian (view ! offset) (view ! (offset + 1))))"

definition getUint32 :: "byte list \<Rightarrow> nat \<Rightarrow> bool \<Rightarrow> error + nat" where
  "getUint32 view offset littleEndian =
     (if offset + 4 > length view then Inl RangeError
      else Inr (uint32 littleEndian (view ! offset) (view ! (offset + 1))
                  (view ! (offset + 2)) (view ! (offset + 3))))"

text \<open>\<open>getUint64\<close> (lines 130-134): two 32-bit reads, combined.\<close>

definition getUint64 :: "byte list \<Rightarrow> nat \<Rightarrow> bool \<Rightarrow> error + nat" where
  "getUint64 view offset little =
     bindE (getUint32 view offset little) (\<lambda>low.
     bindE (getUint32 view (offset + 4) little) (\<lambda>high.
     Inr (if little then high * 0x100000000 + low else low * 0x100000000 + high)))"

subsection \<open>The directory walk of parseTiffMetadata\<close>

text \<open>The local variables of the walk (lines 34-38).\<close>

record locals =
  var_width :: "nat option"
  var_height :: "nat option"
  var_xRes :: "jsnum option"
  var_yRes :: "jsnum option"
  var_description :: "jsstring option"

definition initLocals :: locals where
  "initLocals = \<lparr>var_width = None, var_height = None, var_xRes = None,
                  var_yRes = None, var_description = None\<rparr>"

text \<open>\<open>typeSizeMap[type] || 0\<close> (lines 39, 46).\<close>

definition typeSize :: "nat \<Rightarrow> nat" where
  "typeSize ty =
     (if ty = 1 then 1 else if ty = 2 then 1 else if ty = 3 then 2
      else if ty = 4 then 4 else if ty = 5 then 8 else if ty = 7 then 1
      else if ty = 16 then 8 else 0)"

text \<open>
  The division \<open>num / denom\<close> of two unsigned 32-bit integers as JavaScript computes it:
  \<open>0 / 0\<close> is NaN and \<open>n / 0\<close> is Infinity.
\<close>

definition jsDivide :: "nat \<Rightarrow> nat \<Rightarrow> jsnum" where
  "jsDivide num denom =
     (if denom = 0 then (if num = 0 then NaN else PosInfinity)
      else Fin (of_nat num / of_nat denom))"

text \<open>
  The loop that collects the description (lines 74-80): it stops at \<open>len\<close>, at the end
  of the buffer, or at a null byte.
\<close>

function descriptionLoop ::
  "byte list \<Rightarrow> nat \<Rightarrow> nat \<Rightarrow> nat \<Rightarrow> jsstring \<Rightarrow> error + jsstring" where
  "descriptionLoop view valueOffset len j chars =
     (if j < len \<and> valueOffset + j < length view then
        (case getUint8 view (valueOffset + j) of
           Inl e \<Rightarrow> Inl e
         | Inr c \<Rightarrow>
             if c = 0 then Inr chars
             else descriptionLoop view valueOffset len (j + 1) (chars @ [of_nat c]))
      else Inr chars)"
  by pat_completeness auto
termination
  by (relation "measure (\<lambda>(view, valueOffset, len, j, chars). len - j)") auto

declare descriptionLoop.simps [simp del]

text \<open>The chain of tag tests (lines 54-81), for an entry that was not skipped.\<close>

definition decodeTag ::
  "byte list \<Rightarrow> bool \<Rightarrow> nat \<Rightarrow> nat \<Rightarrow> nat \<Rightarrow> nat \<Rightarrow> locals \<Rightarrow> error + locals" where
  "decodeTag view littleEndian tag ty sz valueOffset vars =
     (if tag = 0x0100 then
        bindE (if ty = 3 then getUint16 view valueOffset littleEndian
               else getUint32 view valueOffset littleEndian)
          (\<lambda>w. Inr (vars\<lparr>var_width := Some w\<rparr>))
      else if tag = 0x0101 then
        bindE (if ty = 3 then getUint16 view valueOffset littleEndian
               else getUint32 view valueOffset littleEndian)
          (\<lambda>h. Inr (vars\<lparr>var_height := Some h\<rparr>))
      else if tag = 0x011A then
        bindE (getUint32 view valueOffset littleEndian) (\<lambda>num.
        bindE (getUint32 view (valueOffset + 4) littleEndian) (\<lambda>denom.
        Inr (vars\<lparr>var_xRes := (if denom \<noteq> 0 then Some (jsDivide num denom) else None)\<rparr>)))
      else if tag = 0x011B then
        bindE (getUint32 view valueOffset littleEndian) (\<lambda>num.
        bindE (getUint32 view (valueOffset + 4) littleEndian) (\<lambda>denom.
        Inr (vars\<lparr>var_yRes := (if denom \<noteq> 0 then Some (jsDivide num denom) else None)\<rparr>)))
      else if tag = 0x010E then
        bindE (descriptionLoop view valueOffset sz 0 [])
          (\<lambda>chars. Inr (vars\<lparr>var_description := Some chars\<rparr>))
      else Inr vars)"

text \<open>
  One iteration of the loop over the entries (lines 41-81). \<open>continue\<close> leaves the
  variables as they are.
\<close>

definition processEntry ::
  "byte list \<Rightarrow> bool \<Rightarrow> nat \<Rightarrow> nat \<Rightarrow> locals \<Rightarrow> error + locals" where
  "processEntry view littleEndian firstIFDOffset i vars =
     (let entryOffset = firstIFDOffset + 2 + i * 12 in
      if entryOffset + 12 > length view then Inr vars
      else
        bindE (getUint16 view entryOffset littleEndian) (\<lambda>tag.
        bindE (getUint16 view (entryOffset + 2) littleEndian) (\<lambda>ty.
        bindE (getUint32 view (entryOffset + 4) littleEndian) (\<lambda>count.
        let sz = typeSize ty * count in
        if sz \<le> 4 then
          decodeTag view littleEndian tag ty sz (entryOffset + 8) vars
        else
          bindE (getUint32 view (entryOffset + 8) littleEndian) (\<lambda>valueOffset.
          if valueOffset + sz > length view then Inr vars
          else decodeTag view littleEndian tag ty sz valueOffset vars)))))"

text \<open>The loop \<open>for (let i = 0; i < numEntries; i++)\<close>, over the indices still to visit.\<close>

fun entriesLoop ::
  "byte list \<Rightarrow> bool \<Rightarrow> nat \<Rightarrow> nat list \<Rightarrow> locals \<Rightarrow> error + locals" where
  "entriesLoop view littleEndian firstIFDOffset [] vars = Inr vars"
| "entriesLoop view littleEndian firstIFDOffset (i # rest) vars =
     bindE (processEntry view littleEndian firstIFDOffset i vars)
       (entriesLoop view littleEndian firstIFDOffset rest)"

subsection \<open>Strings\<close>

text \<open>
  White space as \<open>String.prototype.trim\<close>, the class \<open>\s\<close> and \<open>parseFloat\<close>
  know it: the code units of WhiteSpace and LineTerminator.
\<close>

definition isWhiteSpace :: "jschar \<Rightarrow> bool" where
  "isWhiteSpace c =
     (c = 0x09 \<or> c = 0x0A \<or> c = 0x0B \<or> c = 0x0C \<or> c = 0x0D \<or> c = 0x20 \<or>
      c = 0xA0 \<or> c = 0x1680 \<or> (0x2000 \<le> c \<and> c \<le> 0x200A) \<or> c = 0x2028 \<or>
      c = 0x2029 \<or> c = 0x202F \<or> c = 0x205F \<or> c = 0x3000 \<or> c = 0xFEFF)"

definition trim :: "jsstring \<Rightarrow> jsstring" where
  "trim s = rev (dropWhile isWhiteSpace (rev (dropWhile isWhiteSpace s)))"

definition startsWith :: "jsstring \<Rightarrow> jsstring \<Rightarrow> bool" where
  "startsWith s p = (take (length p) s = p)"

definition isDigit :: "jschar \<Rightarrow> bool" where
  "isDigit c = (0x30 \<le> c \<and> c \<le> 0x39)"

definition digitsValue :: "jsstring \<Rightarrow> nat" where
  "digitsValue ds = foldl (\<lambda>a c. 10 * a + (unat c - 48)) 0 ds"

subsection \<open>parseFloat\<close>

text \<open>
  The number nearest to a rational: values at or below half the least subnormal become
  zero, values at or beyond the overflow threshold become an infinity.
\<close>

definition roundNumber :: "rat \<Rightarrow> jsnum" where
  "roundNumber q =
     (if \<bar>q\<bar> \<le> 1 / 2 ^ 1075 then Fin 0
      else if \<bar>q\<bar> \<ge> 2 ^ 1024 - 2 ^ 970 then (if q < 0 then NegInfinity else PosInfinity)
      else Fin q)"

text \<open>The exponent part of a decimal literal, 0 when there is none.\<close>

definition exponentPart :: "jsstring \<Rightarrow> int" where
  "exponentPart s =
     (case s of
        [] \<Rightarrow> 0
      | c # r \<Rightarrow>
          if c = 0x65 \<or> c = 0x45 then
            (case r of
               [] \<Rightarrow> 0
             | d # r' \<Rightarrow>
                 if d = 0x2D then
                   (if takeWhile isDigit r' = [] then 0
                    else - int (digitsValue (takeWhile isDigit r')))
                 else if d = 0x2B then int (digitsValue (takeWhile isDigit r'))
                 else int (digitsValue (takeWhile isDigit r)))
          else 0)"

text \<open>
  \<open>parseFloat\<close>: leading white space is dropped, the longest prefix that is a decimal
  literal is read, and the result is NaN when there is none.
\<close>

definition parseFloat :: "jsstring \<Rightarrow> jsnum" where
  "parseFloat input =
     (let s = dropWhile isWhiteSpace input;
          neg = (s \<noteq> [] \<and> hd s = 0x2D);
          s1 = (if s \<noteq> [] \<and> (hd s = 0x2D \<or> hd s = 0x2B) then tl s else s)
      in if startsWith s1 (str ''Infinity'') then (if neg then NegInfinity else PosInfinity)
         else
           let ip = takeWhile isDigit s1;
               r1 = dropWhile isDigit s1;
               hasDot = (r1 \<noteq> [] \<and> hd r1 = 0x2E);
               fp = (if hasDot then takeWhile isDigit (tl r1) else []);
               r2 = (if hasDot then dropWhile isDigit (tl r1) else r1)
           in if ip = [] \<and> fp = [] then NaN
              else
                let e = exponentPart r2;
                    mant = (of_nat (digitsValue (ip @ fp)) / 10 ^ length fp :: rat);
                    v = (if e \<ge> 0 then mant * 10 ^ nat e else mant / 10 ^ nat (- e))
                in roundNumber (if neg then - v else v))"

subsection \<open>The regular expressions of the description interpreter\<close>

text \<open>
  The four patterns are sequences of: one character of a class, a greedy \<open>*\<close> over a
  class, and the capture group \<open>(class+)\<close>. \<open>CapRest\<close> is the group after its first
  character. \<open>rmatch\<close> is the backtracking matcher at one start position: a greedy
  repetition takes a character first and gives it back when the rest fails. Its result is
  the text of the group.
\<close>

datatype reItem =
  Ch "jschar \<Rightarrow> bool"
| Star "jschar \<Rightarrow> bool"
| CapPlus "jschar \<Rightarrow> bool"
| CapRest "jschar \<Rightarrow> bool"

fun rmatch :: "reItem list \<Rightarrow> jsstring \<Rightarrow> jsstring \<Rightarrow> jsstring option" where
  "rmatch [] s cap = Some cap"
| "rmatch (Ch P # r) [] cap = None"
| "rmatch (Ch P # r) (c # s) cap = (if P c then rmatch r s cap else None)"
| "rmatch (Star P # r) [] cap = rmatch r [] cap"
| "rmatch (Star P # r) (c # s) cap =
     (if P c then
        (case rmatch (Star P # r) s cap of
           Some x \<Rightarrow> Some x
         | None \<Rightarrow> rmatch r (c # s) cap)
      else rmatch r (c # s) cap)"
| "rmatch (CapPlus P # r) [] cap = None"
| "rmatch (CapPlus P # r) (c # s) cap =
     (if P c then rmatch (CapRest P # r) s [c] else None)"
| "rmatch (CapRest P # r) [] cap = rmatch r [] cap"
| "rmatch (CapRest P # r) (c # s) cap =
     (if P c then
        (case rmatch (CapRest P # r) s (cap @ [c]) of
           Some x \<Rightarrow> Some x
         | None \<Rightarrow> rmatch r (c # s) cap)
      else rmatch r (c # s) cap)"

text \<open>
  \<open>description.match(re)\<close> for a regular expression without the global flag: the
  leftmost start position at which the pattern matches; the result is \<open>match[1]\<close>.
\<close>

fun regexSearch :: "reItem list \<Rightarrow> jsstring \<Rightarrow> jsstring option" where
  "regexSearch re [] = rmatch re [] []"
| "regexSearch re (c # s) =
     (case rmatch re (c # s) [] of
        Some cap \<Rightarrow> Some cap
      | None \<Rightarrow> regexSearch re s)"

text \<open>
  The flag \<open>i\<close>: two code units match when their canonical forms are equal. The
  patterns hold ASCII characters only, and a code unit beyond ASCII never has an ASCII
  canonical form, so upper-casing the ASCII letters is enough.
\<close>

definition asciiUpper :: "jschar \<Rightarrow> jschar" where
  "asciiUpper c = (if 0x61 \<le> c \<and> c \<le> 0x7A then c - 0x20 else c)"

definition lit :: "string \<Rightarrow> reItem list" where
  "lit s = map (\<lambda>p. Ch (\<lambda>c. asciiUpper c = asciiUpper p)) (str s)"

definition isNumChar :: "jschar \<Rightarrow> bool" where
  "isNumChar c = (isDigit c \<or> c = 0x2E)"

definition isColonOrEquals :: "jschar \<Rightarrow> bool" where
  "isColonOrEquals c = (c = 0x3A \<or> c = 0x3D)"

text \<open>The table \<open>patterns\<close> (lines 112-117).\<close>

definition re_physicalSizeX :: "reItem list" where
  "re_physicalSizeX =
     lit ''micronsPerPixelX'' @
     [Star isWhiteSpace, Ch (\<lambda>c. c = 0x3D), Star isWhiteSpace, CapPlus isNumChar]"

definition re_physicalSizeY :: "reItem list" where
  "re_physicalSizeY =
     lit ''micronsPerPixelY'' @
     [Star isWhiteSpace, Ch (\<lambda>c. c = 0x3D), Star isWhiteSpace, CapPlus isNumChar]"

definition re_frameRate :: "reItem list" where
  "re_frameRate =
     lit ''frame'' @ [Star isWhiteSpace] @ lit ''rate'' @
     [Star isWhiteSpace, Ch isColonOrEquals, Star isWhiteSpace, CapPlus isNumChar]"

definition re_timeIncrement :: "reItem list" where
  "re_timeIncrement =
     lit ''time'' @ [Star isWhiteSpace] @ lit ''increment'' @
     [Star isWhiteSpace, Ch isColonOrEquals, Star isWhiteSpace, CapPlus isNumChar]"

text \<open>
  For the statements about the patterns: the class of an item, whether an item belongs to
  the capture group, and the ASCII letters.
\<close>

fun itemClass :: "reItem \<Rightarrow> jschar \<Rightarrow> bool" where
  "itemClass (Ch P) = P"
| "itemClass (Star P) = P"
| "itemClass (CapPlus P) = P"
| "itemClass (CapRest P) = P"

fun isCapture :: "reItem \<Rightarrow> bool" where
  "isCapture (Ch P) = False"
| "isCapture (Star P) = False"
| "isCapture (CapPlus P) = True"
| "isCapture (CapRest P) = True"

definition isLetter :: "jschar \<Rightarrow> bool" where
  "isLetter c = ((0x41 \<le> c \<and> c \<le> 0x5A) \<or> (0x61 \<le> c \<and> c \<le> 0x7A))"

subsection \<open>The metadata object and the description interpreter\<close>

record meta =
  width :: "nat option"
  height :: "nat option"
  xResolution :: "jsnum option"
  yResolution :: "jsnum option"
  physicalSizeX :: "jsnum option"
  physicalSizeY :: "jsnum option"
  physicalSizeZ :: "jsnum option"
  physicalSizeUnit :: "jsstring option"
  timeIncrement :: "jsnum option"
  timeIncrementUnit :: "jsstring option"
  frameRate :: "jsnum option"

text \<open>The object \<open>{}\<close>.\<close>

definition emptyMeta :: meta where
  "emptyMeta =
     \<lparr>width = None, height = None, xResolution = None, yResolution = None,
      physicalSizeX = None, physicalSizeY = None, physicalSizeZ = None,
      physicalSizeUnit = None, timeIncrement = None, timeIncrementUnit = None,
      frameRate = None\<rparr>"

text \<open>\<open>const meta = { width, height, xResolution: xRes, yResolution: yRes }\<close> (line 83).\<close>

definition metaOfLocals :: "locals \<Rightarrow> meta" where
  "metaOfLocals vars =
     emptyMeta\<lparr>width := var_width vars, height := var_height vars,
               xResolution := var_xRes vars, yResolution := var_yRes vars\<rparr>"

text \<open>
  The non-XML branch (lines 110-121): each pattern is searched on its own, in the order
  of the table, and a match stores \<open>parseFloat(match[1])\<close> under its key.
\<close>

definition regexFields :: "jsstring \<Rightarrow> meta \<Rightarrow> meta" where
  "regexFields description m0 =
     (let m1 = (case regexSearch re_physicalSizeX description of
                  None \<Rightarrow> m0 | Some g \<Rightarrow> m0\<lparr>physicalSizeX := Some (parseFloat g)\<rparr>);
          m2 = (case regexSearch re_physicalSizeY description of
                  None \<Rightarrow> m1 | Some g \<Rightarrow> m1\<lparr>physicalSizeY := Some (parseFloat g)\<rparr>);
          m3 = (case regexSearch re_frameRate description of
                  None \<Rightarrow> m2 | Some g \<Rightarrow> m2\<lparr>frameRate := Some (parseFloat g)\<rparr>);
          m4 = (case regexSearch re_timeIncrement description of
                  None \<Rightarrow> m3 | Some g \<Rightarrow> m3\<lparr>timeIncrement := Some (parseFloat g)\<rparr>)
      in m4)"

text \<open>
  The XML branch (lines 89-108). The browser's \<open>DOMParser\<close> is not part of the
  program; it enters as the parameter \<open>domPixels\<close>, which gives, for the text of a
  document, \<open>getAttribute\<close> of its first \<open>Pixels\<close> element, or \<open>None\<close> when the
  parsed document has no such element (a document that is not well formed has none).
  \<open>if (s)\<close> on a string or null holds for a string that is not empty.
\<close>

definition truthyString :: "jsstring option \<Rightarrow> bool" where
  "truthyString v = (case v of None \<Rightarrow> False | Some s \<Rightarrow> s \<noteq> [])"

definition pixelsFields :: "(jsstring \<Rightarrow> jsstring option) \<Rightarrow> meta \<Rightarrow> meta" where
  "pixelsFields getAttribute m0 =
     (let physX = getAttribute (str ''PhysicalSizeX'');
          physY = getAttribute (str ''PhysicalSizeY'');
          physZ = getAttribute (str ''PhysicalSizeZ'');
          physUnit = (if truthyString (getAttribute (str ''PhysicalSizeXUnit''))
                      then getAttribute (str ''PhysicalSizeXUnit'')
                      else getAttribute (str ''PhysicalSizeYUnit''));
          timeInc = getAttribute (str ''TimeIncrement'');
          timeUnit = getAttribute (str ''TimeIncrementUnit'');
          frameRate' = getAttribute (str ''FrameRate'');
          m1 = (if truthyString physX then m0\<lparr>physicalSizeX := Some (parseFloat (the physX))\<rparr> else m0);
          m2 = (if truthyString physY then m1\<lparr>physicalSizeY := Some (parseFloat (the physY))\<rparr> else m1);
          m3 = (if truthyString physZ then m2\<lparr>physicalSizeZ := Some (parseFloat (the physZ))\<rparr> else m2);
          m4 = (if truthyString physUnit then m3\<lparr>physicalSizeUnit := physUnit\<rparr> else m3);
          m5 = (if truthyString timeInc then m4\<lparr>timeIncrement := Some (parseFloat (the timeInc))\<rparr> else m4);
          m6 = (if truthyString timeUnit then m5\<lparr>timeIncrementUnit := timeUnit\<rparr> else m5);
          m7 = (if truthyString frameRate' then m6\<lparr>frameRate := Some (parseFloat (the frameRate'))\<rparr> else m6)
      in m7)"

text \<open>
  Lines 85-126. Nothing inside the \<open>try\<close> block throws in this model, so the
  \<open>catch\<close> has no branch.
\<close>

definition interpretDescription ::
  "(jsstring \<Rightarrow> (jsstring \<Rightarrow> jsstring option) option) \<Rightarrow> jsstring option \<Rightarrow> meta \<Rightarrow> meta" where
  "interpretDescription domPixels description m =
     (if truthyString description then
        (if startsWith (trim (the description)) (str ''<'') then
           (case domPixels (the description) of
              None \<Rightarrow> m
            | Some getAttribute \<Rightarrow> pixelsFields getAttribute m)
         else regexFields (the description) m)
      else m)"

subsection \<open>parseTiffMetadata\<close>

definition parseTiffMetadata ::
  "(jsstring \<Rightarrow> (jsstring \<Rightarrow> jsstring option) option) \<Rightarrow> byte list \<Rightarrow> error + meta" where
  "parseTiffMetadata domPixels view =
     (if length view < 8 then Inr emptyMeta
      else
        bindE (getUint8 view 0) (\<lambda>byteOrder1.
        bindE (getUint8 view 1) (\<lambda>byteOrder2.
        let littleEndian = (byteOrder1 = 0x49 \<and> byteOrder2 = 0x49) in
        bindE (getUint16 view 2 littleEndian) (\<lambda>magic.
        if magic \<noteq> 42 \<and> magic \<noteq> 43 then Inr emptyMeta
        else
          bindE (if magic = 42 then getUint32 view 4 littleEndian
                 else getUint64 view 4 littleEndian) (\<lambda>firstIFDOffset.
          if firstIFDOffset + 2 > length view then Inr emptyMeta
          else
            bindE (getUint16 view firstIFDOffset littleEndian) (\<lambda>numEntries.
            bindE (entriesLoop view littleEndian firstIFDOffset [0..<numEntries] initLocals)
              (\<lambda>vars.
            Inr (interpretDescription domPixels (var_description vars)
                   (metaOfLocals vars)))))))))"

subsection \<open>Numbers as text\<close>

text \<open>The decimal digits of an unsigned integer, as a template literal prints it.\<close>

fun natToString :: "nat \<Rightarrow> jsstring" where
  "natToString n =
     (if n < 10 then [of_nat (48 + n)]
      else natToString (n div 10) @ [of_nat (48 + n mod 10)])"

declare natToString.simps [simp del]

text \<open>A rational that is an integer.\<close>

definition isInteger :: "rat \<Rightarrow> bool" where
  "isInteger q = (\<lfloor>q\<rfloor> = \<lceil>q\<rceil>)"

text \<open>
  The least number of decimal places, between 1 and 21, with which a rational is written
  exactly.
\<close>

definition decimalPlaces :: "rat \<Rightarrow> nat option" where
  "decimalPlaces q = List.find (\<lambda>d. isInteger (q * 10 ^ d)) [1..<22]"

text \<open>
  The text of a number. An integer below \<open>2 ^ 53\<close> is its digits. A decimal fraction
  of at most 15 significant digits and at least \<open>1 / 10 ^ 6\<close> is the shortest decimal
  that reads back as its binary64 value, so it is printed as it stands. The digits of
  every other finite number depend on the rounding of the mantissa, which is not
  modelled: they are the parameter \<open>otherDigits\<close>.
\<close>

definition numberToString :: "(rat \<Rightarrow> jsstring) \<Rightarrow> jsnum \<Rightarrow> jsstring" where
  "numberToString otherDigits x =
     (case x of
        NaN \<Rightarrow> str ''NaN''
      | PosInfinity \<Rightarrow> str ''Infinity''
      | NegInfinity \<Rightarrow> str ''-Infinity''
      | Fin q \<Rightarrow>
          let a = \<bar>q\<bar>; sign = (if q < 0 then str ''-'' else []) in
          if isInteger a \<and> a < 2 ^ 53 then sign @ natToString (nat \<lfloor>a\<rfloor>)
          else
            (case decimalPlaces a of
               None \<Rightarrow> otherDigits q
             | Some d \<Rightarrow>
                 let digits = nat \<lfloor>a * 10 ^ d\<rfloor>;
                     frac = natToString (digits mod 10 ^ d)
                 in if digits < 10 ^ 15 \<and> 1 / 10 ^ 6 \<le> a then
                      sign @ natToString (digits div 10 ^ d) @ str ''.'' @
                      replicate (d - length frac) 0x30 @ frac
                    else otherDigits q))"

subsection \<open>handleFile: the report\<close>

text \<open>Truthiness of a property that is a number or undefined.\<close>

definition truthyNat :: "nat option \<Rightarrow> bool" where
  "truthyNat v = (case v of None \<Rightarrow> False | Some n \<Rightarrow> n \<noteq> 0)"

definition truthyNum :: "jsnum option \<Rightarrow> bool" where
  "truthyNum v = (case v of None \<Rightarrow> False | Some x \<Rightarrow> x \<noteq> NaN \<and> x \<noteq> Fin 0)"

text \<open>\<open>${v ?? '?'}\<close>.\<close>

definition natOrQuestion :: "nat option \<Rightarrow> jsstring" where
  "natOrQuestion v = (case v of None \<Rightarrow> str ''?'' | Some n \<Rightarrow> natToString n)"

definition numOrQuestion :: "(rat \<Rightarrow> jsstring) \<Rightarrow> jsnum option \<Rightarrow> jsstring" where
  "numOrQuestion otherDigits v =
     (case v of None \<Rightarrow> str ''?'' | Some x \<Rightarrow> numberToString otherDigits x)"

text \<open>
  \<open>replace(/micro|Micro/, ...)\<close> on the unit (line 156): the leftmost occurrence
  of \<open>micro\<close> or \<open>Micro\<close> is replaced by the two code units U+03BC (the Greek
  letter mu) and \<open>m\<close>.
\<close>

fun replaceMicro :: "jsstring \<Rightarrow> jsstring" where
  "replaceMicro [] = []"
| "replaceMicro (c # s) =
     (if startsWith (c # s) (str ''micro'') \<or> startsWith (c # s) (str ''Micro'')
      then [0x03BC, 0x6D] @ drop 5 (c # s)
      else c # replaceMicro s)"

definition nl :: jsstring where
  "nl = [0x0A]"

text \<open>
  Lines 147-173 build the text with \<open>out += ...\<close> inside one \<open>if\<close> per block: each
  block appends its lines or nothing. \<open>name\<close> is \<open>file.name\<close> and \<open>sizeText\<close> is
  \<open>file.size.toLocaleString()\<close>, which depends on the locale of the browser. The object
  \<open>meta\<close> is never null here.
\<close>

text \<open>Line 147.\<close>

definition headerLines :: "jsstring \<Rightarrow> jsstring \<Rightarrow> jsstring" where
  "headerLines name sizeText =
     str ''File: '' @ name @ nl @ str ''Size: '' @ sizeText @ str '' bytes''"

text \<open>Lines 148-150.\<close>

definition dimensionLines :: "meta \<Rightarrow> jsstring" where
  "dimensionLines m =
     (if truthyNat (width m) \<or> truthyNat (height m)
      then nl @ str ''Width: '' @ natOrQuestion (width m) @ str '' px'' @
           nl @ str ''Height: '' @ natOrQuestion (height m) @ str '' px''
      else [])"

text \<open>Lines 151-153.\<close>

definition resolutionLines :: "(rat \<Rightarrow> jsstring) \<Rightarrow> meta \<Rightarrow> jsstring" where
  "resolutionLines otherDigits m =
     (if truthyNum (xResolution m) \<or> truthyNum (yResolution m)
      then nl @ str ''X Resolution: '' @ numOrQuestion otherDigits (xResolution m) @
           nl @ str ''Y Resolution: '' @ numOrQuestion otherDigits (yResolution m)
      else [])"

text \<open>Lines 155-163.\<close>

definition pixelSizeLines :: "(rat \<Rightarrow> jsstring) \<Rightarrow> meta \<Rightarrow> jsstring" where
  "pixelSizeLines otherDigits m =
     (if truthyNum (physicalSizeX m) \<or> truthyNum (physicalSizeY m) \<or>
         truthyNum (physicalSizeZ m)
      then
        let unit = (if truthyString (physicalSizeUnit m)
                    then str '' '' @ replaceMicro (the (physicalSizeUnit m))
                    else str '' units'')
        in (if truthyNum (physicalSizeX m)
            then nl @ str ''Pixel Size X: '' @
                 numberToString otherDigits (the (physicalSizeX m)) @ unit
            else []) @
           (if truthyNum (physicalSizeY m)
            then nl @ str ''Pixel Size Y: '' @
                 numberToString otherDigits (the (physicalSizeY m)) @ unit
            else []) @
           (if truthyNum (physicalSizeZ m)
            then nl @ str ''Pixel Size Z: '' @
                 numberToString otherDigits (the (physicalSizeZ m)) @ unit
            else [])
      else [])"

text \<open>Lines 164-167.\<close>

definition timeIncrementLine :: "(rat \<Rightarrow> jsstring) \<Rightarrow> meta \<Rightarrow> jsstring" where
  "timeIncrementLine otherDigits m =
     (if truthyNum (timeIncrement m)
      then
        let unit = (if truthyString (timeIncrementUnit m)
                    then str '' '' @ the (timeIncrementUnit m)
                    else str '' s'')
        in nl @ str ''Time Increment: '' @
           numberToString otherDigits (the (timeIncrement m)) @ unit
      else [])"

text \<open>Lines 168-170.\<close>

definition frameRateLine :: "(rat \<Rightarrow> jsstring) \<Rightarrow> meta \<Rightarrow> jsstring" where
  "frameRateLine otherDigits m =
     (if truthyNum (frameRate m)
      then nl @ str ''Frame Rate: '' @
           numberToString otherDigits (the (frameRate m)) @ str '' Hz''
      else [])"

text \<open>Lines 171-173.\<close>

definition noticeLines :: "meta \<Rightarrow> jsstring" where
  "noticeLines m =
     (if \<not> truthyNat (width m) \<and> \<not> truthyNat (height m) \<and>
         \<not> truthyNum (xResolution m) \<and> \<not> truthyNum (yResolution m)
      then nl @ nl @ str ''Unable to parse metadata from this file.''
      else [])"

text \<open>The text \<open>out\<close> at line 174.\<close>

definition buildOutput ::
  "(rat \<Rightarrow> jsstring) \<Rightarrow> jsstring \<Rightarrow> jsstring \<Rightarrow> meta \<Rightarrow> jsstring" where
  "buildOutput otherDigits name sizeText m =
     headerLines name sizeText @ dimensionLines m @ resolutionLines otherDigits m @
     pixelSizeLines otherDigits m @ timeIncrementLine otherDigits m @
     frameRateLine otherDigits m @ noticeLines m"

text \<open>
  Lines 140-145: an exception of the parser is caught and the metadata is \<open>{}\<close>.
\<close>

definition parsedOrEmpty ::
  "(jsstring \<Rightarrow> (jsstring \<Rightarrow> jsstring option) option) \<Rightarrow> byte list \<Rightarrow> meta" where
  "parsedOrEmpty domPixels buffer =
     (case parseTiffMetadata domPixels buffer of Inl err \<Rightarrow> emptyMeta | Inr m \<Rightarrow> m)"

text \<open>The handler \<open>reader.onload\<close> of \<open>handleFile\<close>: the text put into the page.\<close>

definition handleFile ::
  "(jsstring \<Rightarrow> (jsstring \<Rightarrow> jsstring option) option) \<Rightarrow> (rat \<Rightarrow> jsstring) \<Rightarrow>
   jsstring \<Rightarrow> jsstring \<Rightarrow> byte list \<Rightarrow> jsstring" where
  "handleFile domPixels otherDigits name sizeText buffer =
     buildOutput otherDigits name sizeText (parsedOrEmpty domPixels buffer)"

subsection \<open>Headers and entries\<close>

text \<open>
  For the statements about the walk. \<open>classicHeader view le f n\<close>: the buffer starts
  with the header of a classic TIFF file in byte order \<open>le\<close>, whose first directory is
  at offset \<open>f\<close> and announces \<open>n\<close> entries. \<open>entryAt view le f i tag ty count vo\<close>:
  entry \<open>i\<close> of that directory lies inside the buffer, holds this tag, type and count,
  and its value location \<open>vo\<close> passes the guards of lines 48-53: byte 8 of the entry
  when the value takes at most 4 bytes, else the offset stored there, with the declared
  size inside the buffer.
\<close>

definition classicHeader :: "byte list \<Rightarrow> bool \<Rightarrow> nat \<Rightarrow> nat \<Rightarrow> bool" where
  "classicHeader view le f n =
     (8 \<le> length view \<and> le = (unat (view ! 0) = 0x49 \<and> unat (view ! 1) = 0x49) \<and>
      getUint16 view 2 le = Inr 42 \<and> getUint32 view 4 le = Inr f \<and>
      f + 2 \<le> length view \<and> getUint16 view f le = Inr n)"

definition entryAt ::
  "byte list \<Rightarrow> bool \<Rightarrow> nat \<Rightarrow> nat \<Rightarrow> nat \<Rightarrow> nat \<Rightarrow> nat \<Rightarrow> nat \<Rightarrow> bool" where
  "entryAt view le f i tag ty count vo =
     (let eo = f + 2 + i * 12 in
      eo + 12 \<le> length view \<and> getUint16 view eo le = Inr tag \<and>
      getUint16 view (eo + 2) le = Inr ty \<and> getUint32 view (eo + 4) le = Inr count \<and>
      (if typeSize ty * count \<le> 4 then vo = eo + 8
       else getUint32 view (eo + 8) le = Inr vo \<and> vo + typeSize ty * count \<le> length view))"

subsection \<open>Sample inputs\<close>

text \<open>
  Stand-ins for the parameters where a concrete run needs them: a browser whose parser
  finds no \<open>Pixels\<close> element, and no digits for the numbers whose text is not
  modelled.
\<close>

definition noPixels :: "jsstring \<Rightarrow> (jsstring \<Rightarrow> jsstring option) option" where
  "noPixels text = None"

definition noDigits :: "rat \<Rightarrow> jsstring" where
  "noDigits q = []"

text \<open>
  A little-endian file of 34 bytes that ends with its directory: ImageWidth (short, 100)
  and XResolution declared as one long, so that its value is taken to lie inside the
  entry.
\<close>

definition tiffShortRational :: "byte list" where
  "tiffShortRational =
     [0x49, 0x49, 42, 0, 8, 0, 0, 0,
      2, 0,
      0x00, 0x01, 3, 0, 1, 0, 0, 0, 100, 0, 0, 0,
      0x1A, 0x01, 4, 0, 1, 0, 0, 0, 72, 0, 0, 0]"

text \<open>
  The smallest classic TIFF file with one directory entry: ImageWidth, type short,
  count 1, value \<open>v\<close>, in either byte order; the offset of the next directory closes it.
\<close>

definition minimalTiff :: "bool \<Rightarrow> nat \<Rightarrow> byte list" where
  "minimalTiff littleEndian v =
     (if littleEndian then
        [0x49, 0x49, 42, 0, 8, 0, 0, 0,
         1, 0,
         0x00, 0x01, 3, 0, 1, 0, 0, 0, of_nat (v mod 256), of_nat (v div 256), 0, 0,
         0, 0, 0, 0]
      else
        [0x4D, 0x4D, 0, 42, 0, 0, 0, 8,
         0, 1,
         0x01, 0x00, 0, 3, 0, 0, 0, 1, of_nat (v div 256), of_nat (v mod 256), 0, 0,
         0, 0, 0, 0])"

text \<open>
  A file whose ImageLength (type long, count 2) is stored outside the entry, at offset 26.
\<close>

definition tiffHeightByPointer :: "byte list" where
  "tiffHeightByPointer =
     [0x49, 0x49, 42, 0, 8, 0, 0, 0,
      1, 0,
      0x01, 0x01, 4, 0, 2, 0, 0, 0, 26, 0, 0, 0,
      0, 0, 0, 0,
      0xE0, 0x01, 0, 0, 0, 0, 0, 0]"

text \<open>
  A file that announces two entries and is cut after six bytes of the second one:
  ImageLength (short, 50) is complete, ImageWidth is not.
\<close>

definition tiffTruncated :: "byte list" where
  "tiffTruncated =
     [0x49, 0x49, 42, 0, 8, 0, 0, 0,
      2, 0,
      0x01, 0x01, 3, 0, 1, 0, 0, 0, 50, 0, 0, 0,
      0x00, 0x01, 3, 0, 1, 0]"

text \<open>
  A file with XResolution 72/0 (at offset 38) and YResolution 300/4 (at offset 46), both
  of type rational.
\<close>

definition tiffZeroDenominator :: "byte list" where
  "tiffZeroDenominator =
     [0x49, 0x49, 42, 0, 8, 0, 0, 0,
      2, 0,
      0x1A, 0x01, 5, 0, 1, 0, 0, 0, 38, 0, 0, 0,
      0x1B, 0x01, 5, 0, 1, 0, 0, 0, 46, 0, 0, 0,
      0, 0, 0, 0,
      72, 0, 0, 0, 0, 0, 0, 0,
      44, 1, 0, 0, 4, 0, 0, 0]"

text \<open>
  A file whose ImageDescription (68 bytes at offset 26, the last one null) is an OME-XML
  document with one \<open>Pixels\<close> element, the text of that document, and a browser that
  parses it: the element has the attributes \<open>PhysicalSizeX\<close> and
  \<open>PhysicalSizeXUnit\<close> and no other.
\<close>

definition omeDescription :: jsstring where
  \<open>omeDescription =
     str ''<OME><Pixels PhysicalSizeX="0.5" PhysicalSizeXUnit="micron"/></OME>''\<close>

definition omeAttributes :: "jsstring \<Rightarrow> jsstring option" where
  "omeAttributes name =
     (if name = str ''PhysicalSizeX'' then Some (str ''0.5'')
      else if name = str ''PhysicalSizeXUnit'' then Some (str ''micron'')
      else None)"

definition omePixels :: "jsstring \<Rightarrow> (jsstring \<Rightarrow> jsstring option) option" where
  "omePixels text = (if text = omeDescription then Some omeAttributes else None)"

definition tiffWithOme :: "byte list" where
  \<open>tiffWithOme =
     [0x49, 0x49, 42, 0, 8, 0, 0, 0,
      1, 0,
      0x0E, 0x01, 2, 0, 68, 0, 0, 0, 26, 0, 0, 0,
      0, 0, 0, 0] @
     map (\<lambda>c. of_nat (of_char c))
       ''<OME><Pixels PhysicalSizeX="0.5" PhysicalSizeXUnit="micron"/></OME>'' @
     [0]\<close>



section \<open>Properties\<close>

subsection \<open>Auxiliary facts\<close>

lemma bindE_simps [simp]:
  "bindE (Inr v) f = f v"
  "bindE (Inl e) f = Inl e"
  by (simp_all add: bindE_def)

lemma getUint16_in_bounds:
  "offset + 2 \<le> length view \<Longrightarrow> \<exists>v. getUint16 view offset le = Inr v"
  by (simp add: getUint16_def)

lemma getUint32_in_bounds:
  "offset + 4 \<le> length view \<Longrightarrow> \<exists>v. getUint32 view offset le = Inr v"
  by (simp add: getUint32_def)

lemma natToString_digit: "n < 10 \<Longrightarrow> natToString n = [of_nat (48 + n)]"
  by (subst natToString.simps) simp

lemma natToString_more:
  "10 \<le> n \<Longrightarrow> natToString n = natToString (n div 10) @ [of_nat (48 + n mod 10)]"
  by (subst natToString.simps) simp

lemma truthyNat_simps [simp]:
  "truthyNat None = False"
  "truthyNat (Some n) = (n \<noteq> 0)"
  by (simp_all add: truthyNat_def)

lemma truthyNum_simps [simp]:
  "truthyNum None = False"
  "truthyNum (Some x) = (x \<noteq> NaN \<and> x \<noteq> Fin 0)"
  by (simp_all add: truthyNum_def)

lemma truthyString_simps [simp]:
  "truthyString None = False"
  "truthyString (Some s) = (s \<noteq> [])"
  by (simp_all add: truthyString_def)



lemma bindE_Inr: "bindE r Inr = r"
  by (cases r) simp_all

lemma getUint16_value:
  "offset + 2 \<le> length view \<Longrightarrow>
   getUint16 view offset le = Inr (uint16 le (view ! offset) (view ! (offset + 1)))"
  by (simp add: getUint16_def)

lemma getUint32_value:
  "offset + 4 \<le> length view \<Longrightarrow>
   getUint32 view offset le =
   Inr (uint32 le (view ! offset) (view ! (offset + 1)) (view ! (offset + 2))
          (view ! (offset + 3)))"
  by (simp add: getUint32_def)

lemma unat_byte_mod: "unat (of_nat (v mod 256) :: byte) = v mod 256"
  by (simp add: unat_of_nat)

lemma unat_byte_div: "v < 65536 \<Longrightarrow> unat (of_nat (v div 256) :: byte) = v div 256"
  by (simp add: unat_of_nat)

text \<open>The facts that run the parser on a given list of bytes.\<close>

lemmas reads =
  getUint8_def getUint16_def getUint32_def getUint64_def uint16_def uint32_def

lemmas walk =
  parseTiffMetadata_def processEntry_def decodeTag_def typeSize_def jsDivide_def Let_def
  initLocals_def metaOfLocals_def interpretDescription_def emptyMeta_def upt_rec

lemmas report =
  buildOutput_def headerLines_def dimensionLines_def resolutionLines_def
  pixelSizeLines_def timeIncrementLine_def frameRateLine_def noticeLines_def
  natOrQuestion_def numOrQuestion_def natToString_digit natToString_more str_def nl_def

subsubsection \<open>The loop over the entries\<close>

lemma processEntry_beyond:
  "firstIFDOffset + 2 + i * 12 + 12 > length view \<Longrightarrow>
   processEntry view le firstIFDOffset i vars = Inr vars"
  by (simp add: processEntry_def)

lemma entriesLoop_append:
  "entriesLoop view le f (xs @ ys) vars =
   bindE (entriesLoop view le f xs vars) (entriesLoop view le f ys)"
proof (induction xs arbitrary: vars)
  case Nil
  then show ?case by simp
next
  case (Cons i xs)
  then show ?case
    by (cases "processEntry view le f i vars") simp_all
qed

lemma entriesLoop_beyond:
  "\<forall>i \<in> set is. f + 2 + i * 12 + 12 > length view \<Longrightarrow>
   entriesLoop view le f is vars = Inr vars"
  by (induction "is") (simp_all add: processEntry_beyond)

lemma entriesLoop_complete_only:
  "entriesLoop view le f [0..<n] vars =
   entriesLoop view le f [0..<min n ((length view - (f + 2)) div 12)] vars"
proof (cases "n \<le> (length view - (f + 2)) div 12")
  case True
  then show ?thesis by (simp add: min_def)
next
  case False
  define k where "k = (length view - (f + 2)) div 12"
  have kn: "k \<le> n"
    using False by (simp add: k_def)
  have split: "[0..<n] = [0..<k] @ [k..<n]"
    using kn by (metis le0 upt_add_eq_append le_add_diff_inverse)
  have beyond: "\<forall>i \<in> set [k..<n]. f + 2 + i * 12 + 12 > length view"
  proof
    fix i assume "i \<in> set [k..<n]"
    then have "(length view - (f + 2)) div 12 < i + 1"
      unfolding k_def by simp
    then have "length view - (f + 2) < (i + 1) * 12"
      by (simp add: div_less_iff_less_mult)
    then show "f + 2 + i * 12 + 12 > length view"
      by simp
  qed
  have "entriesLoop view le f [0..<n] vars =
        bindE (entriesLoop view le f [0..<k] vars) (entriesLoop view le f [k..<n])"
    by (simp only: split entriesLoop_append)
  also have "entriesLoop view le f [k..<n] = Inr"
    using beyond by (auto simp add: entriesLoop_beyond fun_eq_iff)
  finally show ?thesis
    using kn by (simp add: bindE_Inr k_def min_def)
qed

subsubsection \<open>Width and height\<close>

lemma decodeTag_dimension:
  assumes "tag = 0x0100 \<or> tag = 0x0101" and "vo + 4 \<le> length view"
  shows "decodeTag view le tag ty sz vo vars =
     Inr (let v = (if ty = 3 then uint16 le (view ! vo) (view ! (vo + 1))
                   else uint32 le (view ! vo) (view ! (vo + 1)) (view ! (vo + 2))
                          (view ! (vo + 3)))
          in if tag = 0x0100 then vars\<lparr>var_width := Some v\<rparr>
             else vars\<lparr>var_height := Some v\<rparr>)"
  using assms by (auto simp add: decodeTag_def getUint16_value getUint32_value Let_def)

lemma processEntry_entryAt:
  assumes "entryAt view le f i tag ty count vo"
  shows "processEntry view le f i vars =
         decodeTag view le tag ty (typeSize ty * count) vo vars"
  using assms by (auto simp add: entryAt_def processEntry_def Let_def split: if_splits)

lemma parse_classicHeader:
  assumes "classicHeader view le f n"
  shows "parseTiffMetadata domPixels view =
         bindE (entriesLoop view le f [0..<n] initLocals)
           (\<lambda>vars. Inr (interpretDescription domPixels (var_description vars)
                          (metaOfLocals vars)))"
  using assms
  by (auto simp add: classicHeader_def parseTiffMetadata_def getUint8_def Let_def)

lemma entryAt_value_in_bounds:
  assumes "entryAt view le f i tag ty count vo"
  shows "vo + 4 \<le> length view"
  using assms by (auto simp add: entryAt_def Let_def split: if_splits)

lemma processEntry_dimension:
  assumes "entryAt view le f i tag ty count vo" and "tag = 0x0100 \<or> tag = 0x0101"
  shows "processEntry view le f i vars =
     Inr (let v = (if ty = 3 then uint16 le (view ! vo) (view ! (vo + 1))
                   else uint32 le (view ! vo) (view ! (vo + 1)) (view ! (vo + 2))
                          (view ! (vo + 3)))
          in if tag = 0x0100 then vars\<lparr>var_width := Some v\<rparr>
             else vars\<lparr>var_height := Some v\<rparr>)"
  using decodeTag_dimension [OF assms(2) entryAt_value_in_bounds [OF assms(1)]]
  by (simp add: processEntry_entryAt [OF assms(1)])

lemma minimalTiff_width:
  "v < 65536 \<Longrightarrow>
   parseTiffMetadata domPixels (minimalTiff littleEndian v) = Inr (emptyMeta\<lparr>width := Some v\<rparr>)"
  by (cases littleEndian)
    (simp_all add: minimalTiff_def reads walk unat_byte_mod unat_byte_div)

subsubsection \<open>The resolutions\<close>

lemma decodeTag_xResolution:
  assumes "getUint32 view vo le = Inr num" and "getUint32 view (vo + 4) le = Inr denom"
  shows "decodeTag view le 0x011A ty sz vo vars =
     Inr (vars\<lparr>var_xRes :=
            (if denom = 0 then None else Some (Fin (of_nat num / of_nat denom)))\<rparr>)"
  using assms by (simp add: decodeTag_def jsDivide_def)

lemma decodeTag_yResolution:
  assumes "getUint32 view vo le = Inr num" and "getUint32 view (vo + 4) le = Inr denom"
  shows "decodeTag view le 0x011B ty sz vo vars =
     Inr (vars\<lparr>var_yRes :=
            (if denom = 0 then None else Some (Fin (of_nat num / of_nat denom)))\<rparr>)"
  using assms by (simp add: decodeTag_def jsDivide_def)

lemma decodeTag_finite:
  assumes "decodeTag view le tag ty sz vo vars = Inr vars'"
    and "var_xRes vars \<notin> {Some NaN, Some PosInfinity, Some NegInfinity}"
    and "var_yRes vars \<notin> {Some NaN, Some PosInfinity, Some NegInfinity}"
  shows "var_xRes vars' \<notin> {Some NaN, Some PosInfinity, Some NegInfinity} \<and>
         var_yRes vars' \<notin> {Some NaN, Some PosInfinity, Some NegInfinity}"
  using assms
  by (auto simp add: decodeTag_def bindE_def jsDivide_def split: if_splits sum.splits)

lemma processEntry_finite:
  assumes "processEntry view le f i vars = Inr vars'"
    and "var_xRes vars \<notin> {Some NaN, Some PosInfinity, Some NegInfinity}"
    and "var_yRes vars \<notin> {Some NaN, Some PosInfinity, Some NegInfinity}"
  shows "var_xRes vars' \<notin> {Some NaN, Some PosInfinity, Some NegInfinity} \<and>
         var_yRes vars' \<notin> {Some NaN, Some PosInfinity, Some NegInfinity}"
proof -
  have "vars' = vars \<or> (\<exists>tag ty sz vo. decodeTag view le tag ty sz vo vars = Inr vars')"
    using assms(1)
    by (auto simp add: processEntry_def bindE_def Let_def split: if_splits sum.splits)
  then show ?thesis
    using assms(2,3) decodeTag_finite by blast
qed

lemma entriesLoop_finite:
  assumes "entriesLoop view le f is vars = Inr vars'"
    and "var_xRes vars \<notin> {Some NaN, Some PosInfinity, Some NegInfinity}"
    and "var_yRes vars \<notin> {Some NaN, Some PosInfinity, Some NegInfinity}"
  shows "var_xRes vars' \<notin> {Some NaN, Some PosInfinity, Some NegInfinity} \<and>
         var_yRes vars' \<notin> {Some NaN, Some PosInfinity, Some NegInfinity}"
  using assms
proof (induction "is" arbitrary: vars)
  case Nil
  then show ?case by simp
next
  case (Cons i rest)
  from Cons.prems(1) obtain mid where
    step: "processEntry view le f i vars = Inr mid" and
    rest: "entriesLoop view le f rest mid = Inr vars'"
    by (cases "processEntry view le f i vars") simp_all
  from processEntry_finite [OF step Cons.prems(2,3)] Cons.IH [OF rest]
  show ?case by blast
qed

text \<open>The description interpreter leaves width, height and the resolutions alone.\<close>

lemma regexFields_geometry:
  "width (regexFields d m) = width m"
  "height (regexFields d m) = height m"
  "xResolution (regexFields d m) = xResolution m"
  "yResolution (regexFields d m) = yResolution m"
  by (simp_all add: regexFields_def Let_def split: option.splits)

lemma pixelsFields_geometry:
  "width (pixelsFields g m) = width m"
  "height (pixelsFields g m) = height m"
  "xResolution (pixelsFields g m) = xResolution m"
  "yResolution (pixelsFields g m) = yResolution m"
  by (simp_all add: pixelsFields_def Let_def)

lemma interpretDescription_geometry:
  "width (interpretDescription domPixels d m) = width m"
  "height (interpretDescription domPixels d m) = height m"
  "xResolution (interpretDescription domPixels d m) = xResolution m"
  "yResolution (interpretDescription domPixels d m) = yResolution m"
  by (simp_all add: interpretDescription_def regexFields_geometry pixelsFields_geometry
      split: option.splits)

lemma parse_cases:
  assumes "parseTiffMetadata domPixels view = Inr m"
  shows "m = emptyMeta \<or>
    (\<exists>le f n vars. entriesLoop view le f [0..<n] initLocals = Inr vars \<and>
       m = interpretDescription domPixels (var_description vars) (metaOfLocals vars))"
  using assms
  by (simp add: parseTiffMetadata_def Let_def bindE_def split: if_splits sum.splits) blast+

lemma parse_finite:
  assumes "parseTiffMetadata domPixels view = Inr m"
  shows "xResolution m \<notin> {Some NaN, Some PosInfinity, Some NegInfinity} \<and>
         yResolution m \<notin> {Some NaN, Some PosInfinity, Some NegInfinity}"
proof -
  from parse_cases [OF assms] show ?thesis
  proof
    assume "m = emptyMeta"
    then show ?thesis by (simp add: emptyMeta_def)
  next
    assume "\<exists>le f n vars. entriesLoop view le f [0..<n] initLocals = Inr vars \<and>
       m = interpretDescription domPixels (var_description vars) (metaOfLocals vars)"
    then obtain le f n vars where
      l: "entriesLoop view le f [0..<n] initLocals = Inr vars" and
      m: "m = interpretDescription domPixels (var_description vars) (metaOfLocals vars)"
      by blast
    have "xResolution m = var_xRes vars" "yResolution m = var_yRes vars"
      by (simp_all add: m interpretDescription_geometry metaOfLocals_def)
    with entriesLoop_finite [OF l] show ?thesis
      by (simp add: initLocals_def)
  qed
qed

text \<open>The last entry with a resolution tag decides the field.\<close>

lemma processEntry_resolution:
  assumes "entryAt view le f i tag ty count vo" and "tag = 0x011A \<or> tag = 0x011B"
    and "getUint32 view vo le = Inr num" and "getUint32 view (vo + 4) le = Inr denom"
  shows "processEntry view le f i vars =
     Inr (let r = (if denom = 0 then None else Some (Fin (of_nat num / of_nat denom)))
          in if tag = 0x011A then vars\<lparr>var_xRes := r\<rparr> else vars\<lparr>var_yRes := r\<rparr>)"
  using assms(2) decodeTag_xResolution [OF assms(3,4)] decodeTag_yResolution [OF assms(3,4)]
  by (auto simp add: processEntry_entryAt [OF assms(1)] Let_def)

lemma processEntry_other_tag:
  assumes "processEntry view le f j v = Inr v'"
    and "getUint16 view (f + 2 + j * 12) le \<noteq> Inr tag"
  shows "(tag = 0x011A \<longrightarrow> var_xRes v' = var_xRes v) \<and>
         (tag = 0x011B \<longrightarrow> var_yRes v' = var_yRes v)"
  using assms
  by (auto simp add: processEntry_def decodeTag_def bindE_def Let_def
      split: if_splits sum.splits)

lemma entriesLoop_other_tags:
  assumes "entriesLoop view le f js v = Inr v'"
    and "\<forall>j \<in> set js. getUint16 view (f + 2 + j * 12) le \<noteq> Inr tag"
  shows "(tag = 0x011A \<longrightarrow> var_xRes v' = var_xRes v) \<and>
         (tag = 0x011B \<longrightarrow> var_yRes v' = var_yRes v)"
  using assms
proof (induction js arbitrary: v)
  case Nil
  then show ?case by simp
next
  case (Cons j js)
  from Cons.prems(1) obtain mid where
    step: "processEntry view le f j v = Inr mid" and
    rest: "entriesLoop view le f js mid = Inr v'"
    by (cases "processEntry view le f j v") simp_all
  from processEntry_other_tag [OF step, of tag] Cons.IH [OF rest] Cons.prems(2)
  show ?case by simp
qed

lemma last_resolution_entry:
  assumes h: "classicHeader view le f n" and i: "i < n"
    and e: "entryAt view le f i tag ty count vo" and t: "tag = 0x011A \<or> tag = 0x011B"
    and num: "getUint32 view vo le = Inr num"
    and denom: "getUint32 view (vo + 4) le = Inr denom"
    and later: "\<forall>j. i < j \<and> j < n \<longrightarrow> getUint16 view (f + 2 + j * 12) le \<noteq> Inr tag"
    and p: "parseTiffMetadata domPixels view = Inr m"
  shows "(if tag = 0x011A then xResolution m else yResolution m) =
         (if denom = 0 then None else Some (Fin (of_nat num / of_nat denom)))"
proof -
  from p parse_classicHeader [OF h, of domPixels] obtain vars where
    l: "entriesLoop view le f [0..<n] initLocals = Inr vars" and
    m: "m = interpretDescription domPixels (var_description vars) (metaOfLocals vars)"
    by (cases "entriesLoop view le f [0..<n] initLocals") auto
  have split: "[0..<n] = [0..<i] @ i # [Suc i..<n]"
    using i by (metis le0 upt_add_eq_append upt_conv_Cons less_imp_le_nat le_add_diff_inverse)
  from l obtain v1 where
    pre: "entriesLoop view le f [0..<i] initLocals = Inr v1" and
    rest: "entriesLoop view le f (i # [Suc i..<n]) v1 = Inr vars"
    unfolding split entriesLoop_append
    by (cases "entriesLoop view le f [0..<i] initLocals") auto
  define r where "r = (if denom = 0 then None else Some (Fin (of_nat num / of_nat denom)))"
  define v2 where "v2 = (if tag = 0x011A then v1\<lparr>var_xRes := r\<rparr> else v1\<lparr>var_yRes := r\<rparr>)"
  have step: "processEntry view le f i v1 = Inr v2"
    using processEntry_resolution [OF e t num denom, of v1] by (simp add: v2_def r_def Let_def)
  with rest have post: "entriesLoop view le f [Suc i..<n] v2 = Inr vars"
    by simp
  have "\<forall>j \<in> set [Suc i..<n]. getUint16 view (f + 2 + j * 12) le \<noteq> Inr tag"
    using later by simp
  from entriesLoop_other_tags [OF post this] t
  have "(if tag = 0x011A then var_xRes vars else var_yRes vars) = r"
    by (auto simp add: v2_def)
  moreover have "xResolution m = var_xRes vars" "yResolution m = var_yRes vars"
    by (simp_all add: m interpretDescription_geometry metaOfLocals_def)
  ultimately show ?thesis
    by (simp only: r_def)
qed


subsubsection \<open>Numbers and characters\<close>

lemma floor_rat_numerals:
  "\<lfloor>numeral a / numeral b :: rat\<rfloor> = numeral a div numeral b"
  "\<lfloor>1 / numeral b :: rat\<rfloor> = 1 div numeral b"
  "\<lceil>numeral a / numeral b :: rat\<rceil> = - (- numeral a div numeral b)"
  "\<lceil>1 / numeral b :: rat\<rceil> = - (- 1 div numeral b)"
proof -
  show "\<lfloor>numeral a / numeral b :: rat\<rfloor> = numeral a div numeral b"
    by (metis floor_divide_of_int_eq of_int_numeral)
  show "\<lfloor>1 / numeral b :: rat\<rfloor> = 1 div numeral b"
    by (metis floor_divide_of_int_eq of_int_numeral of_int_1)
  show "\<lceil>numeral a / numeral b :: rat\<rceil> = - (- numeral a div numeral b)"
    using floor_divide_of_int_eq [of "- numeral a" "numeral b", where ?'a = rat]
    by (simp add: ceiling_def)
  show "\<lceil>1 / numeral b :: rat\<rceil> = - (- 1 div numeral b)"
    using floor_divide_of_int_eq [of "- 1" "numeral b", where ?'a = rat]
    by (simp add: ceiling_def)
qed

lemmas chars =
  str_def isWhiteSpace_def isDigit_def isNumChar_def isColonOrEquals_def asciiUpper_def
  lit_def trim_def startsWith_def

lemmas numbers =
  parseFloat_def exponentPart_def digitsValue_def roundNumber_def numberToString_def
  decimalPlaces_def isInteger_def floor_rat_numerals

text \<open>Upper-casing changes letters only, and into letters.\<close>

lemma asciiUpper_cases:
  "asciiUpper c = c \<or> (isLetter c \<and> isLetter (asciiUpper c))"
proof (cases "0x61 \<le> c \<and> c \<le> 0x7A")
  case False
  then show ?thesis by (auto simp add: asciiUpper_def)
next
  case True
  then have "97 \<le> unat c" "unat c \<le> 122"
    by (simp_all add: word_le_nat_alt)
  moreover have "unat (c - 0x20) = unat c - 32"
    using True by (simp add: unat_sub word_le_nat_alt)
  ultimately have "65 \<le> unat (c - 0x20) \<and> unat (c - 0x20) \<le> 90"
    by arith
  then have "0x41 \<le> c - 0x20 \<and> c - 0x20 \<le> 0x5A"
    by (simp add: word_le_nat_alt)
  with True show ?thesis
    by (simp add: asciiUpper_def isLetter_def)
qed

lemma asciiUpper_idem: "asciiUpper (asciiUpper c) = asciiUpper c"
proof (cases "0x61 \<le> c \<and> c \<le> 0x7A")
  case False
  then show ?thesis by (simp add: asciiUpper_def)
next
  case True
  then have "97 \<le> unat c" "unat c \<le> 122"
    by (simp_all add: word_le_nat_alt)
  moreover have "unat (c - 0x20) = unat c - 32"
    using True by (simp add: unat_sub word_le_nat_alt)
  ultimately have "\<not> (0x61 \<le> c - 0x20)"
    by (simp add: word_le_nat_alt)
  with True show ?thesis
    by (simp add: asciiUpper_def)
qed

lemma class_without_letters:
  assumes "\<And>c. isLetter c \<Longrightarrow> \<not> P c"
  shows "P (asciiUpper c) = P c"
  using asciiUpper_cases [of c] assms by auto

lemma isWhiteSpace_upper: "isWhiteSpace (asciiUpper c) = isWhiteSpace c"
  by (rule class_without_letters)
    (auto simp add: isLetter_def isWhiteSpace_def word_le_nat_alt)

lemma isNumChar_upper: "isNumChar (asciiUpper c) = isNumChar c"
  by (rule class_without_letters)
    (auto simp add: isLetter_def isNumChar_def isDigit_def word_le_nat_alt)

lemma isColonOrEquals_upper: "isColonOrEquals (asciiUpper c) = isColonOrEquals c"
  by (rule class_without_letters)
    (auto simp add: isLetter_def isColonOrEquals_def word_le_nat_alt)

lemma equals_upper: "(asciiUpper c = 0x3D) = (c = 0x3D)"
  by (rule class_without_letters [of "\<lambda>c. c = 0x3D"])
    (auto simp add: isLetter_def word_le_nat_alt)

lemma isNumChar_fixed: "isNumChar c \<Longrightarrow> asciiUpper c = c"
  using asciiUpper_cases [of c]
  by (auto simp add: isLetter_def isNumChar_def isDigit_def word_le_nat_alt)

subsubsection \<open>The matcher\<close>

lemma rmatch_upper:
  assumes "\<forall>it \<in> set re. \<forall>c. itemClass it (asciiUpper c) = itemClass it c"
  shows "rmatch re (map asciiUpper s) (map asciiUpper cap) =
         map_option (map asciiUpper) (rmatch re s cap)"
  using assms
  by (induction re s cap rule: rmatch.induct) (auto split: option.splits)

lemma regexSearch_upper:
  assumes "\<forall>it \<in> set re. \<forall>c. itemClass it (asciiUpper c) = itemClass it c"
  shows "regexSearch re (map asciiUpper s) = map_option (map asciiUpper) (regexSearch re s)"
proof (induction s)
  case Nil
  show ?case
    using rmatch_upper [OF assms, of "[]" "[]"] by simp
next
  case (Cons c s)
  show ?case
    using rmatch_upper [OF assms, of "c # s" "[]"] Cons.IH
    by (simp split: option.splits)
qed

lemma rmatch_capture:
  assumes "rmatch re s cap = Some g"
    and "\<forall>it \<in> set re. \<forall>c. isCapture it \<longrightarrow> itemClass it c \<longrightarrow> Q c"
    and "\<forall>c \<in> set cap. Q c"
  shows "\<forall>c \<in> set g. Q c"
  using assms
proof (induction re s cap rule: rmatch.induct)
  case (5 P r c s cap)
  then show ?case
    by (simp split: if_splits option.splits)
next
  case (7 P r c s cap)
  then show ?case
    by (simp split: if_splits)
next
  case (9 P r c s cap)
  then show ?case
    by (simp split: if_splits option.splits)
qed (simp_all split: if_splits)

lemma regexSearch_capture:
  assumes "regexSearch re s = Some g"
    and "\<forall>it \<in> set re. \<forall>c. isCapture it \<longrightarrow> itemClass it c \<longrightarrow> Q c"
  shows "\<forall>c \<in> set g. Q c"
  using assms(1)
proof (induction s)
  case Nil
  then show ?case
    using rmatch_capture [of re "[]" "[]" g Q] assms(2) by simp
next
  case (Cons c s)
  show ?case
  proof (cases "rmatch re (c # s) []")
    case None
    with Cons show ?thesis by simp
  next
    case (Some x)
    with Cons.prems have "rmatch re (c # s) [] = Some g"
      by simp
    then show ?thesis
      using rmatch_capture [of re "c # s" "[]" g Q] assms(2) by simp
  qed
qed

subsubsection \<open>The four patterns\<close>

lemma patterns_caseless:
  assumes "re \<in> {re_physicalSizeX, re_physicalSizeY, re_frameRate, re_timeIncrement}"
  shows "\<forall>it \<in> set re. \<forall>c. itemClass it (asciiUpper c) = itemClass it c"
  using assms
  by (auto simp add: re_physicalSizeX_def re_physicalSizeY_def re_frameRate_def
      re_timeIncrement_def lit_def asciiUpper_idem isWhiteSpace_upper isNumChar_upper
      isColonOrEquals_upper equals_upper)

lemma patterns_capture:
  assumes "re \<in> {re_physicalSizeX, re_physicalSizeY, re_frameRate, re_timeIncrement}"
  shows "\<forall>it \<in> set re. \<forall>c. isCapture it \<longrightarrow> itemClass it c \<longrightarrow> isNumChar c"
  using assms
  by (auto simp add: re_physicalSizeX_def re_physicalSizeY_def re_frameRate_def
      re_timeIncrement_def lit_def)

lemma regexSearch_caseless:
  assumes "re \<in> {re_physicalSizeX, re_physicalSizeY, re_frameRate, re_timeIncrement}"
    and "map asciiUpper d' = map asciiUpper d"
  shows "regexSearch re d' = regexSearch re d"
proof -
  have up: "regexSearch re (map asciiUpper x) = regexSearch re x" for x
  proof (cases "regexSearch re x")
    case None
    then show ?thesis
      using regexSearch_upper [OF patterns_caseless [OF assms(1)], of x] by simp
  next
    case (Some g)
    then have "\<forall>c \<in> set g. isNumChar c"
      using regexSearch_capture patterns_capture [OF assms(1)] by blast
    then have "map asciiUpper g = g"
      by (simp add: isNumChar_fixed map_idI)
    with Some show ?thesis
      using regexSearch_upper [OF patterns_caseless [OF assms(1)], of x] by simp
  qed
  show ?thesis
    using up [of d'] up [of d] assms(2) by simp
qed

lemma regexFields_caseless:
  assumes "map asciiUpper d' = map asciiUpper d"
  shows "regexFields d' m = regexFields d m"
  using assms by (simp add: regexFields_def regexSearch_caseless [of _ d' d])

lemma regexFields_each:
  "physicalSizeX (regexFields d m) =
     (case regexSearch re_physicalSizeX d of
        None \<Rightarrow> physicalSizeX m | Some g \<Rightarrow> Some (parseFloat g))"
  "physicalSizeY (regexFields d m) =
     (case regexSearch re_physicalSizeY d of
        None \<Rightarrow> physicalSizeY m | Some g \<Rightarrow> Some (parseFloat g))"
  "frameRate (regexFields d m) =
     (case regexSearch re_frameRate d of
        None \<Rightarrow> frameRate m | Some g \<Rightarrow> Some (parseFloat g))"
  "timeIncrement (regexFields d m) =
     (case regexSearch re_timeIncrement d of
        None \<Rightarrow> timeIncrement m | Some g \<Rightarrow> Some (parseFloat g))"
  by (simp_all add: regexFields_def Let_def split: option.splits)

subsection \<open>The header\<close>

text \<open>
  Claim C7. A buffer shorter than 8 bytes is not an error: the parser returns, and what
  it returns is the object in which every field is absent.
\<close>

theorem short_buffer_gives_empty_metadata:
  "length view < 8 \<Longrightarrow> parseTiffMetadata domPixels view = Inr emptyMeta"
  by (simp add: parseTiffMetadata_def)

theorem short_buffer_witness:
  "length [0x49, 0x49, 42, 0, 8, 0, 0 :: byte] < 8 \<and>
   parseTiffMetadata noPixels [0x49, 0x49, 42, 0, 8, 0, 0] = Inr emptyMeta"
  using short_buffer_gives_empty_metadata [of "[0x49, 0x49, 42, 0, 8, 0, 0]" noPixels]
  by simp

text \<open>
  Claim C8. For a buffer of at least 8 bytes, the 16-bit number at offset 2 is read in the
  byte order that bytes 0 and 1 select. When it is neither 42 nor 43 the parser returns
  the object in which every field is absent, and raises nothing.
\<close>

theorem bad_magic_gives_empty_metadata:
  assumes "8 \<le> length view"
    and "getUint16 view 2 (unat (view ! 0) = 0x49 \<and> unat (view ! 1) = 0x49)
         \<notin> {Inr 42, Inr 43}"
  shows "parseTiffMetadata domPixels view = Inr emptyMeta"
proof -
  obtain magic where
    m: "getUint16 view 2 (unat (view ! 0) = 0x49 \<and> unat (view ! 1) = 0x49) = Inr magic"
    using getUint16_in_bounds [of 2 view] assms(1) by auto
  with assms(2) have "magic \<noteq> 42" "magic \<noteq> 43"
    by auto
  with m assms(1) show ?thesis
    by (auto simp add: parseTiffMetadata_def getUint8_def Let_def)
qed

theorem bad_magic_witness:
  "8 \<le> length [0x4D, 0x4D, 0, 41, 0, 0, 0, 8 :: byte] \<and>
   getUint16 [0x4D, 0x4D, 0, 41, 0, 0, 0, 8] 2 False = Inr 41 \<and>
   parseTiffMetadata noPixels [0x4D, 0x4D, 0, 41, 0, 0, 0, 8] = Inr emptyMeta"
  using bad_magic_gives_empty_metadata [of "[0x4D, 0x4D, 0, 41, 0, 0, 0, 8]" noPixels]
  by (simp add: getUint16_def uint16_def)

subsection \<open>The directory entries\<close>

text \<open>
  Claim C6. An entry whose 12 bytes do not all lie inside the buffer is skipped: the loop
  reads nothing of it, keeps the variables and raises nothing. So the walk over the
  \<open>n\<close> announced entries is the walk over those that are complete, and parsing a file
  with a classic header is parsing its complete entries. A file cut in the middle of an
  entry keeps what the complete entries gave: the sample file, cut in its second entry,
  yields the height of its first entry and no width.
\<close>

theorem truncated_entries_are_skipped:
  "(firstIFDOffset + 2 + i * 12 + 12 > length view \<longrightarrow>
      processEntry view le firstIFDOffset i vars = Inr vars) \<and>
   entriesLoop view le firstIFDOffset [0..<n] vars =
     entriesLoop view le firstIFDOffset
       [0..<min n ((length view - (firstIFDOffset + 2)) div 12)] vars \<and>
   (classicHeader view le firstIFDOffset n \<longrightarrow>
      parseTiffMetadata domPixels view =
        bindE (entriesLoop view le firstIFDOffset
                 [0..<min n ((length view - (firstIFDOffset + 2)) div 12)] initLocals)
          (\<lambda>vars. Inr (interpretDescription domPixels (var_description vars)
                         (metaOfLocals vars)))) \<and>
   parseTiffMetadata domPixels tiffTruncated = Inr (emptyMeta\<lparr>height := Some 50\<rparr>)"
proof (intro conjI impI)
  assume "firstIFDOffset + 2 + i * 12 + 12 > length view"
  then show "processEntry view le firstIFDOffset i vars = Inr vars"
    by (rule processEntry_beyond)
next
  show "entriesLoop view le firstIFDOffset [0..<n] vars =
     entriesLoop view le firstIFDOffset
       [0..<min n ((length view - (firstIFDOffset + 2)) div 12)] vars"
    by (rule entriesLoop_complete_only)
next
  assume "classicHeader view le firstIFDOffset n"
  then show "parseTiffMetadata domPixels view =
        bindE (entriesLoop view le firstIFDOffset
                 [0..<min n ((length view - (firstIFDOffset + 2)) div 12)] initLocals)
          (\<lambda>vars. Inr (interpretDescription domPixels (var_description vars)
                         (metaOfLocals vars)))"
    by (simp only: parse_classicHeader
        entriesLoop_complete_only [of view le firstIFDOffset n initLocals, symmetric])
next
  show "parseTiffMetadata domPixels tiffTruncated = Inr (emptyMeta\<lparr>height := Some 50\<rparr>)"
    by (simp add: tiffTruncated_def reads walk)
qed

theorem truncated_entries_witness:
  "8 + 2 + 1 * 12 + 12 > length tiffTruncated \<and>
   processEntry tiffTruncated True 8 1 (initLocals\<lparr>var_height := Some 50\<rparr>) =
     Inr (initLocals\<lparr>var_height := Some 50\<rparr>) \<and>
   classicHeader tiffTruncated True 8 2 \<and>
   min 2 ((length tiffTruncated - (8 + 2)) div 12) = 1 \<and>
   parseTiffMetadata noPixels tiffTruncated =
     bindE (entriesLoop tiffTruncated True 8 [0..<1] initLocals)
       (\<lambda>vars. Inr (interpretDescription noPixels (var_description vars)
                      (metaOfLocals vars))) \<and>
   parseTiffMetadata noPixels tiffTruncated = Inr (emptyMeta\<lparr>height := Some 50\<rparr>)"
proof -
  have h: "classicHeader tiffTruncated True 8 2"
    by (simp add: classicHeader_def tiffTruncated_def reads)
  have k: "min 2 ((length tiffTruncated - (8 + 2)) div 12) = 1"
    by (simp add: tiffTruncated_def)
  have b: "8 + 2 + 1 * 12 + 12 > length tiffTruncated"
    by (simp add: tiffTruncated_def)
  note t = truncated_entries_are_skipped
    [where firstIFDOffset = 8 and i = 1 and view = tiffTruncated and le = True
      and vars = "initLocals\<lparr>var_height := Some 50\<rparr>" and n = 2 and domPixels = noPixels]
  from t b have s1: "processEntry tiffTruncated True 8 1 (initLocals\<lparr>var_height := Some 50\<rparr>) =
     Inr (initLocals\<lparr>var_height := Some 50\<rparr>)"
    by blast
  from t h have "parseTiffMetadata noPixels tiffTruncated =
     bindE (entriesLoop tiffTruncated True 8
              [0..<min 2 ((length tiffTruncated - (8 + 2)) div 12)] initLocals)
       (\<lambda>vars. Inr (interpretDescription noPixels (var_description vars)
                      (metaOfLocals vars)))"
    by blast
  then have s3: "parseTiffMetadata noPixels tiffTruncated =
     bindE (entriesLoop tiffTruncated True 8 [0..<1] initLocals)
       (\<lambda>vars. Inr (interpretDescription noPixels (var_description vars)
                      (metaOfLocals vars)))"
    by (simp only: k)
  from t have s4: "parseTiffMetadata noPixels tiffTruncated =
     Inr (emptyMeta\<lparr>height := Some 50\<rparr>)"
    by blast
  from b s1 h k s3 s4 show ?thesis
    by (intro conjI)
qed

text \<open>
  Claim C4. The smallest classic TIFF file with one entry for ImageWidth, of type short
  and value \<open>v\<close>, parses to width \<open>v\<close>, in either byte order. In general an entry
  with tag ImageWidth or ImageLength stores the 16-bit number at its value location when
  its type is 3 and the 32-bit number there otherwise, and raises nothing.
\<close>

theorem image_width_and_length:
  "(v < 65536 \<longrightarrow>
      parseTiffMetadata domPixels (minimalTiff littleEndian v) =
        Inr (emptyMeta\<lparr>width := Some v\<rparr>)) \<and>
   (entryAt view le f i tag ty count vo \<and> (tag = 0x0100 \<or> tag = 0x0101) \<longrightarrow>
      processEntry view le f i vars =
        Inr (let x = (if ty = 3 then uint16 le (view ! vo) (view ! (vo + 1))
                      else uint32 le (view ! vo) (view ! (vo + 1)) (view ! (vo + 2))
                             (view ! (vo + 3)))
             in if tag = 0x0100 then vars\<lparr>var_width := Some x\<rparr>
                else vars\<lparr>var_height := Some x\<rparr>))"
proof (intro conjI impI)
  assume "v < 65536"
  then show "parseTiffMetadata domPixels (minimalTiff littleEndian v) =
        Inr (emptyMeta\<lparr>width := Some v\<rparr>)"
    by (rule minimalTiff_width)
next
  assume "entryAt view le f i tag ty count vo \<and> (tag = 0x0100 \<or> tag = 0x0101)"
  then show "processEntry view le f i vars =
        Inr (let x = (if ty = 3 then uint16 le (view ! vo) (view ! (vo + 1))
                      else uint32 le (view ! vo) (view ! (vo + 1)) (view ! (vo + 2))
                             (view ! (vo + 3)))
             in if tag = 0x0100 then vars\<lparr>var_width := Some x\<rparr>
                else vars\<lparr>var_height := Some x\<rparr>)"
    using processEntry_dimension [of view le f i tag ty count vo vars] by simp
qed

theorem image_width_and_length_witness:
  "minimalTiff True 100 =
     [0x49, 0x49, 42, 0, 8, 0, 0, 0, 1, 0,
      0x00, 0x01, 3, 0, 1, 0, 0, 0, 100, 0, 0, 0, 0, 0, 0, 0] \<and>
   parseTiffMetadata noPixels (minimalTiff True 100) = Inr (emptyMeta\<lparr>width := Some 100\<rparr>) \<and>
   minimalTiff False 100 =
     [0x4D, 0x4D, 0, 42, 0, 0, 0, 8, 0, 1,
      0x01, 0x00, 0, 3, 0, 0, 0, 1, 0, 100, 0, 0, 0, 0, 0, 0] \<and>
   parseTiffMetadata noPixels (minimalTiff False 100) = Inr (emptyMeta\<lparr>width := Some 100\<rparr>) \<and>
   entryAt (minimalTiff False 100) False 8 0 0x0100 3 1 18 \<and>
   processEntry (minimalTiff False 100) False 8 0 initLocals =
     Inr (initLocals\<lparr>var_width := Some 100\<rparr>) \<and>
   entryAt tiffHeightByPointer True 8 0 0x0101 4 2 26 \<and>
   processEntry tiffHeightByPointer True 8 0 initLocals =
     Inr (initLocals\<lparr>var_height := Some 480\<rparr>)"
proof -
  have e1: "entryAt (minimalTiff False 100) False 8 0 0x0100 3 1 18"
    by (simp add: entryAt_def minimalTiff_def reads typeSize_def)
  have e2: "entryAt tiffHeightByPointer True 8 0 0x0101 4 2 26"
    by (simp add: entryAt_def tiffHeightByPointer_def reads typeSize_def)
  from image_width_and_length [where v = 100 and domPixels = noPixels
      and littleEndian = True and view = "minimalTiff False 100" and le = False and f = 8
      and i = 0 and tag = "0x0100" and ty = 3 and count = 1 and vo = 18
      and vars = initLocals]
    image_width_and_length [where v = 100 and domPixels = noPixels
      and littleEndian = False and view = tiffHeightByPointer and le = True and f = 8
      and i = 0 and tag = "0x0101" and ty = 4 and count = 2 and vo = 26
      and vars = initLocals]
    e1 e2
  show ?thesis
    by (simp add: minimalTiff_def tiffHeightByPointer_def uint16_def uint32_def)
qed

text \<open>
  Claim C3. An XResolution or YResolution entry whose numerator and denominator can be
  read is decoded without an exception: a denominator of zero leaves the variable
  undefined, any other denominator stores the quotient. The last entry of the directory
  with that tag decides the field of the parsed metadata (a later entry with the same
  tag overwrites the variable). Whatever the buffer, a resolution of the parsed metadata
  is never NaN and never an infinity.
\<close>

theorem resolution_is_a_finite_quotient:
  "(entryAt view le f i tag ty count vo \<and> (tag = 0x011A \<or> tag = 0x011B) \<and>
    getUint32 view vo le = Inr num \<and> getUint32 view (vo + 4) le = Inr denom \<longrightarrow>
      processEntry view le f i vars =
        Inr (let r = (if denom = 0 then None else Some (Fin (of_nat num / of_nat denom)))
             in if tag = 0x011A then vars\<lparr>var_xRes := r\<rparr> else vars\<lparr>var_yRes := r\<rparr>)) \<and>
   (classicHeader view le f n \<and> i < n \<and>
    entryAt view le f i tag ty count vo \<and> (tag = 0x011A \<or> tag = 0x011B) \<and>
    getUint32 view vo le = Inr num \<and> getUint32 view (vo + 4) le = Inr denom \<and>
    (\<forall>j \<in> set [Suc i..<n]. getUint16 view (f + 2 + j * 12) le \<noteq> Inr tag) \<and>
    parseTiffMetadata domPixels view = Inr m \<longrightarrow>
      (if tag = 0x011A then xResolution m else yResolution m) =
      (if denom = 0 then None else Some (Fin (of_nat num / of_nat denom)))) \<and>
   (parseTiffMetadata domPixels view = Inr m \<longrightarrow>
      xResolution m \<notin> {Some NaN, Some PosInfinity, Some NegInfinity} \<and>
      yResolution m \<notin> {Some NaN, Some PosInfinity, Some NegInfinity})"
proof (intro conjI impI)
  assume "entryAt view le f i tag ty count vo \<and> (tag = 0x011A \<or> tag = 0x011B) \<and>
    getUint32 view vo le = Inr num \<and> getUint32 view (vo + 4) le = Inr denom"
  then show "processEntry view le f i vars =
        Inr (let r = (if denom = 0 then None else Some (Fin (of_nat num / of_nat denom)))
             in if tag = 0x011A then vars\<lparr>var_xRes := r\<rparr> else vars\<lparr>var_yRes := r\<rparr>)"
    using processEntry_resolution [of view le f i tag ty count vo num denom vars] by simp
next
  assume a: "classicHeader view le f n \<and> i < n \<and>
    entryAt view le f i tag ty count vo \<and> (tag = 0x011A \<or> tag = 0x011B) \<and>
    getUint32 view vo le = Inr num \<and> getUint32 view (vo + 4) le = Inr denom \<and>
    (\<forall>j \<in> set [Suc i..<n]. getUint16 view (f + 2 + j * 12) le \<noteq> Inr tag) \<and>
    parseTiffMetadata domPixels view = Inr m"
  then have "\<forall>j. i < j \<and> j < n \<longrightarrow> getUint16 view (f + 2 + j * 12) le \<noteq> Inr tag"
    by simp
  with a show "(if tag = 0x011A then xResolution m else yResolution m) =
      (if denom = 0 then None else Some (Fin (of_nat num / of_nat denom)))"
    using last_resolution_entry [of view le f n i tag ty count vo num denom domPixels m]
    by blast
next
  assume "parseTiffMetadata domPixels view = Inr m"
  then show "xResolution m \<notin> {Some NaN, Some PosInfinity, Some NegInfinity}"
    and "yResolution m \<notin> {Some NaN, Some PosInfinity, Some NegInfinity}"
    using parse_finite by blast+
qed

text \<open>
  The sample file has XResolution 72/0 in entry 0 and YResolution 300/4 in entry 1: the
  parsed metadata has no xResolution and the yResolution 75.
\<close>

theorem resolution_witness:
  "classicHeader tiffZeroDenominator True 8 2 \<and>
   entryAt tiffZeroDenominator True 8 0 0x011A 5 1 38 \<and>
   getUint32 tiffZeroDenominator 38 True = Inr 72 \<and>
   getUint32 tiffZeroDenominator 42 True = Inr 0 \<and>
   processEntry tiffZeroDenominator True 8 0 initLocals = Inr (initLocals\<lparr>var_xRes := None\<rparr>) \<and>
   entryAt tiffZeroDenominator True 8 1 0x011B 5 1 46 \<and>
   getUint32 tiffZeroDenominator 46 True = Inr 300 \<and>
   getUint32 tiffZeroDenominator 50 True = Inr 4 \<and>
   processEntry tiffZeroDenominator True 8 1 initLocals =
     Inr (initLocals\<lparr>var_yRes := Some (Fin 75)\<rparr>) \<and>
   parseTiffMetadata noPixels tiffZeroDenominator =
     Inr (emptyMeta\<lparr>yResolution := Some (Fin 75)\<rparr>) \<and>
   xResolution (emptyMeta\<lparr>yResolution := Some (Fin 75)\<rparr>) = None \<and>
   yResolution (emptyMeta\<lparr>yResolution := Some (Fin 75)\<rparr>) = Some (Fin 75)"
proof -
  have h: "classicHeader tiffZeroDenominator True 8 2"
    by (simp add: classicHeader_def tiffZeroDenominator_def reads)
  have e0: "entryAt tiffZeroDenominator True 8 0 0x011A 5 1 38"
    by (simp add: entryAt_def tiffZeroDenominator_def reads typeSize_def)
  have e1: "entryAt tiffZeroDenominator True 8 1 0x011B 5 1 46"
    by (simp add: entryAt_def tiffZeroDenominator_def reads typeSize_def)
  have r: "getUint32 tiffZeroDenominator 38 True = Inr 72"
    "getUint32 tiffZeroDenominator 42 True = Inr 0"
    "getUint32 tiffZeroDenominator 46 True = Inr 300"
    "getUint32 tiffZeroDenominator 50 True = Inr 4"
    by (simp_all add: tiffZeroDenominator_def reads)
  have l: "\<forall>j \<in> set [Suc 0..<2]. getUint16 tiffZeroDenominator (8 + 2 + j * 12) True \<noteq> Inr 0x011A"
    by (simp add: upt_rec tiffZeroDenominator_def reads)
  have p: "parseTiffMetadata noPixels tiffZeroDenominator =
     Inr (emptyMeta\<lparr>yResolution := Some (Fin 75)\<rparr>)"
    by (simp add: tiffZeroDenominator_def reads walk)
  from resolution_is_a_finite_quotient
      [where view = tiffZeroDenominator and le = True and f = 8 and n = 2 and i = 0
        and tag = "0x011A" and ty = 5 and count = 1 and vo = 38 and num = 72 and denom = 0
        and vars = initLocals and domPixels = noPixels
        and m = "emptyMeta\<lparr>yResolution := Some (Fin 75)\<rparr>"]
    resolution_is_a_finite_quotient
      [where view = tiffZeroDenominator and le = True and f = 8 and n = 2 and i = 1
        and tag = "0x011B" and ty = 5 and count = 1 and vo = 46 and num = 300 and denom = 4
        and vars = initLocals and domPixels = noPixels
        and m = "emptyMeta\<lparr>yResolution := Some (Fin 75)\<rparr>"]
    h e0 e1 r l p
  show ?thesis
    by (simp add: emptyMeta_def)
qed

text \<open>
  Claim C1 does not hold for the code. The two reads of a rational (lines 62-63 and 67-68)
  take 8 bytes at the value location, but the guards of lines 48-53 only cover the size
  that the entry declares. In the sample file the XResolution entry declares one long
  (4 bytes, so the value is taken to lie inside the entry) and is the last thing in
  the file: the read of the denominator runs past the end of the buffer and throws. The
  width read from the first entry is lost, \<open>handleFile\<close> catches the exception and
  reports that it is unable to parse the file.
\<close>

theorem short_rational_aborts_the_parse:
  "processEntry tiffShortRational True 8 0 initLocals =
     Inr (initLocals\<lparr>var_width := Some 100\<rparr>) \<and>
   processEntry tiffShortRational True 8 1 (initLocals\<lparr>var_width := Some 100\<rparr>) =
     Inl RangeError \<and>
   parseTiffMetadata noPixels tiffShortRational = Inl RangeError \<and>
   handleFile noPixels noDigits (str ''a.tif'') (str ''34'') tiffShortRational =
     str ''File: a.tif'' @ nl @ str ''Size: 34 bytes'' @ nl @ nl @
     str ''Unable to parse metadata from this file.''"
proof (intro conjI)
  show p: "parseTiffMetadata noPixels tiffShortRational = Inl RangeError"
    by (simp add: tiffShortRational_def reads walk)
  show "handleFile noPixels noDigits (str ''a.tif'') (str ''34'') tiffShortRational =
     str ''File: a.tif'' @ nl @ str ''Size: 34 bytes'' @ nl @ nl @
     str ''Unable to parse metadata from this file.''"
    by (simp add: handleFile_def parsedOrEmpty_def p emptyMeta_def report)
qed (simp_all add: tiffShortRational_def reads walk)

subsection \<open>The report\<close>

text \<open>
  Claim C5. When none of width, height, xResolution and yResolution was recovered, the
  report has no width, height or resolution line and ends with the notice, whatever the
  description gave: the lines for pixel size, time increment and frame rate stand before
  the notice.
\<close>

theorem notice_without_geometry:
  assumes "width m = None" and "height m = None"
    and "xResolution m = None" and "yResolution m = None"
  shows "buildOutput otherDigits name sizeText m =
         headerLines name sizeText @ pixelSizeLines otherDigits m @
         timeIncrementLine otherDigits m @ frameRateLine otherDigits m @
         nl @ nl @ str ''Unable to parse metadata from this file.''"
  using assms
  by (simp add: buildOutput_def dimensionLines_def resolutionLines_def noticeLines_def)

text \<open>The scenario of the claim: only the frame rate is present.\<close>

theorem notice_without_geometry_witness:
  "width (emptyMeta\<lparr>frameRate := Some (Fin 30)\<rparr>) = None \<and>
   height (emptyMeta\<lparr>frameRate := Some (Fin 30)\<rparr>) = None \<and>
   xResolution (emptyMeta\<lparr>frameRate := Some (Fin 30)\<rparr>) = None \<and>
   yResolution (emptyMeta\<lparr>frameRate := Some (Fin 30)\<rparr>) = None \<and>
   buildOutput noDigits (str ''a.tif'') (str ''12'') (emptyMeta\<lparr>frameRate := Some (Fin 30)\<rparr>) =
     str ''File: a.tif'' @ nl @ str ''Size: 12 bytes'' @ nl @ str ''Frame Rate: 30 Hz'' @
     nl @ nl @ str ''Unable to parse metadata from this file.''"
  using notice_without_geometry
    [of "emptyMeta\<lparr>frameRate := Some (Fin 30)\<rparr>" noDigits "str ''a.tif''" "str ''12''"]
  by (simp add: emptyMeta_def headerLines_def pixelSizeLines_def timeIncrementLine_def
      frameRateLine_def numberToString_def isInteger_def natToString_digit natToString_more
      str_def)




text \<open>
  Claim C2 does not hold for the code. For the sample file, whose description is an
  OME-XML document with \<open>PhysicalSizeX="0.5"\<close> and \<open>PhysicalSizeXUnit="micron"\<close>,
  the interpreter yields physicalSizeX = 0.5 and physicalSizeUnit = \<open>micron\<close>, as the
  claim says. The report, however, replaces only the five letters \<open>micro\<close> of the
  unit by the letter mu and \<open>m\<close>, so the \<open>n\<close> of \<open>micron\<close> stays: the line ends
  in mu, \<open>m\<close>, \<open>n\<close>, not in mu, \<open>m\<close>.
\<close>

theorem micron_keeps_its_last_letter:
  "parseTiffMetadata omePixels tiffWithOme =
     Inr (emptyMeta\<lparr>physicalSizeX := Some (Fin (1 / 2)),
                     physicalSizeUnit := Some (str ''micron'')\<rparr>) \<and>
   replaceMicro (str ''micron'') = [0x03BC] @ str ''mn'' \<and>
   handleFile omePixels noDigits (str ''cells.tif'') (str ''94'') tiffWithOme =
     str ''File: cells.tif'' @ nl @ str ''Size: 94 bytes'' @ nl @
     str ''Pixel Size X: 0.5 '' @ [0x03BC] @ str ''mn'' @ nl @ nl @
     str ''Unable to parse metadata from this file.''"
proof (intro conjI)
  show p: "parseTiffMetadata omePixels tiffWithOme =
     Inr (emptyMeta\<lparr>physicalSizeX := Some (Fin (1 / 2)),
                     physicalSizeUnit := Some (str ''micron'')\<rparr>)"
    by (simp add: tiffWithOme_def omeDescription_def omePixels_def omeAttributes_def reads
        walk descriptionLoop.simps pixelsFields_def numbers chars)
  show "replaceMicro (str ''micron'') = [0x03BC] @ str ''mn''"
    by (simp add: chars)
  show "handleFile omePixels noDigits (str ''cells.tif'') (str ''94'') tiffWithOme =
     str ''File: cells.tif'' @ nl @ str ''Size: 94 bytes'' @ nl @
     str ''Pixel Size X: 0.5 '' @ [0x03BC] @ str ''mn'' @ nl @ nl @
     str ''Unable to parse metadata from this file.''"
    by (simp add: handleFile_def parsedOrEmpty_def p)
      (simp add: emptyMeta_def report numbers chars upt_rec)
qed

subsection \<open>The description\<close>

text \<open>
  Claim C9. The description \<open>micronsPerPixelX = 0.3, frame rate = 30\<close> does not start
  with \<open><\<close>, so the four patterns are searched: the interpreter yields physicalSizeX =
  0.3 and frameRate = 30 and nothing else. Each of the four fields depends on the search
  of its own pattern only: on the object of line 83 a match stores the number parsed from
  the group and no match leaves the field absent. The searches ignore case: two
  descriptions that differ in the case of ASCII letters only give the same fields.
\<close>

theorem description_patterns:
  "interpretDescription domPixels (Some (str ''micronsPerPixelX = 0.3, frame rate = 30''))
     emptyMeta =
     emptyMeta\<lparr>physicalSizeX := Some (Fin (3 / 10)), frameRate := Some (Fin 30)\<rparr> \<and>
   physicalSizeX (regexFields d (metaOfLocals vars)) =
     map_option parseFloat (regexSearch re_physicalSizeX d) \<and>
   physicalSizeY (regexFields d (metaOfLocals vars)) =
     map_option parseFloat (regexSearch re_physicalSizeY d) \<and>
   frameRate (regexFields d (metaOfLocals vars)) =
     map_option parseFloat (regexSearch re_frameRate d) \<and>
   timeIncrement (regexFields d (metaOfLocals vars)) =
     map_option parseFloat (regexSearch re_timeIncrement d) \<and>
   (map asciiUpper d' = map asciiUpper d \<longrightarrow> regexFields d' m = regexFields d m)"
proof (intro conjI impI)
  show "interpretDescription domPixels
     (Some (str ''micronsPerPixelX = 0.3, frame rate = 30'')) emptyMeta =
     emptyMeta\<lparr>physicalSizeX := Some (Fin (3 / 10)), frameRate := Some (Fin 30)\<rparr>"
    by (simp add: interpretDescription_def regexFields_def re_physicalSizeX_def
        re_physicalSizeY_def re_frameRate_def re_timeIncrement_def emptyMeta_def numbers
        chars Let_def)
next
  assume "map asciiUpper d' = map asciiUpper d"
  then show "regexFields d' m = regexFields d m"
    by (rule regexFields_caseless)
qed (simp_all add: regexFields_each metaOfLocals_def emptyMeta_def split: option.splits)

theorem description_patterns_witness:
  "map asciiUpper (str ''MICRONSPERPIXELX = 0.3, Frame Rate: 30'') =
   map asciiUpper (str ''micronsperpixelx = 0.3, frame rate: 30'') \<and>
   regexFields (str ''MICRONSPERPIXELX = 0.3, Frame Rate: 30'') emptyMeta =
   regexFields (str ''micronsperpixelx = 0.3, frame rate: 30'') emptyMeta \<and>
   regexFields (str ''MICRONSPERPIXELX = 0.3, Frame Rate: 30'') emptyMeta =
   emptyMeta\<lparr>physicalSizeX := Some (Fin (3 / 10)), frameRate := Some (Fin 30)\<rparr>"
proof -
  have u: "map asciiUpper (str ''MICRONSPERPIXELX = 0.3, Frame Rate: 30'') =
   map asciiUpper (str ''micronsperpixelx = 0.3, frame rate: 30'')"
    by (simp add: chars)
  with description_patterns
    [where d' = "str ''MICRONSPERPIXELX = 0.3, Frame Rate: 30''"
      and d = "str ''micronsperpixelx = 0.3, frame rate: 30''" and m = emptyMeta
      and domPixels = noPixels]
  have e: "regexFields (str ''MICRONSPERPIXELX = 0.3, Frame Rate: 30'') emptyMeta =
   regexFields (str ''micronsperpixelx = 0.3, frame rate: 30'') emptyMeta"
    by blast
  have "regexFields (str ''micronsperpixelx = 0.3, frame rate: 30'') emptyMeta =
   emptyMeta\<lparr>physicalSizeX := Some (Fin (3 / 10)), frameRate := Some (Fin 30)\<rparr>"
    by (simp add: regexFields_def re_physicalSizeX_def re_physicalSizeY_def re_frameRate_def
        re_timeIncrement_def emptyMeta_def numbers chars Let_def)
  with u e show ?thesis
    by simp
qed

end
